theory Spec2Isabelle
  imports Main "HOL-Library.AList" "HOL-Library.Sublist" "HOL-Library.Word"
begin

section \<open>Values and documents\<close>

text \<open>
  The handlers of \<^verbatim>\<open>main.py\<close> work on documents of a document store: Python
  dictionaries from field names to values of any JSON/BSON shape. A document is an
  association list in insertion order, as a Python \<^verbatim>\<open>dict\<close> is; a value is
  \<^verbatim>\<open>None\<close>, a boolean, an integer, a string, a store identifier
  (\<^verbatim>\<open>ObjectId\<close>), a list or a nested dictionary. Strings are lists of
  characters with code points below 256.
\<close>

datatype val =
    VNone
  | VBool bool
  | VInt int
  | VStr string
  | VOid string
  | VList "val list"
  | VDict "(string \<times> val) list"

type_synonym doc = "(string \<times> val) list"

text \<open>\<^verbatim>\<open>d.get(k)\<close> and \<^verbatim>\<open>d.get(k, default)\<close>.\<close>

definition get_default :: "doc \<Rightarrow> string \<Rightarrow> val \<Rightarrow> val" where
  "get_default d k dflt = (case map_of d k of None \<Rightarrow> dflt | Some v \<Rightarrow> v)"

definition get :: "doc \<Rightarrow> string \<Rightarrow> val" where
  "get d k = get_default d k VNone"

text \<open>Python truth value of a value (\<^verbatim>\<open>bool(v)\<close>, \<^verbatim>\<open>if v\<close>, \<^verbatim>\<open>not v\<close>).\<close>

fun truthy :: "val \<Rightarrow> bool" where
  "truthy VNone = False"
| "truthy (VBool b) = b"
| "truthy (VInt i) = (i \<noteq> 0)"
| "truthy (VStr s) = (s \<noteq> [])"
| "truthy (VOid h) = True"
| "truthy (VList vs) = (vs \<noteq> [])"
| "truthy (VDict kvs) = (kvs \<noteq> [])"

text \<open>
  Truth value of the result of \<^verbatim>\<open>find_one\<close>: \<^verbatim>\<open>None\<close> and the empty
  dictionary are false.
\<close>

fun truthy_doc :: "doc option \<Rightarrow> bool" where
  "truthy_doc None = False"
| "truthy_doc (Some d) = (d \<noteq> [])"

text \<open>\<^verbatim>\<open>a or b\<close> on two lookup results.\<close>

definition py_or :: "doc option \<Rightarrow> doc option \<Rightarrow> doc option" where
  "py_or a b = (if truthy_doc a then a else b)"

subsection \<open>\<^verbatim>\<open>str\<close> and \<^verbatim>\<open>repr\<close>\<close>

definition hexdigits :: string where
  "hexdigits = ''0123456789abcdef''"

definition hex2 :: "nat \<Rightarrow> string" where
  "hex2 n = [hexdigits ! ((n div 16) mod 16), hexdigits ! (n mod 16)]"

fun nat_digits :: "nat \<Rightarrow> string" where
  "nat_digits n =
     (if n < 10 then [hexdigits ! n] else nat_digits (n div 10) @ [hexdigits ! (n mod 10)])"

declare nat_digits.simps [simp del]

definition int_str :: "int \<Rightarrow> string" where
  "int_str i = (if i < 0 then CHR ''-'' # nat_digits (nat (- i)) else nat_digits (nat i))"

text \<open>
  \<^verbatim>\<open>repr\<close> of a string: single quotes unless the string holds a single quote and
  no double quote; backslash and the chosen quote are escaped, tab, newline and return
  are written \<^verbatim>\<open>\t \n \r\<close>, every other unprintable code point as
  \<^verbatim>\<open>\xNN\<close>.
\<close>

definition printable :: "char \<Rightarrow> bool" where
  "printable c = (let n = of_char c :: nat in
     (32 \<le> n \<and> n < 127) \<or> (161 \<le> n \<and> n \<noteq> 173))"

definition repr_char :: "char \<Rightarrow> char \<Rightarrow> string" where
  "repr_char q c =
     (if c = q \<or> c = CHR 0x5C then [CHR 0x5C, c]
      else if c = CHR 0x09 then [CHR 0x5C, CHR ''t'']
      else if c = CHR 0x0A then [CHR 0x5C, CHR ''n'']
      else if c = CHR 0x0D then [CHR 0x5C, CHR ''r'']
      else if printable c then [c]
      else [CHR 0x5C, CHR ''x''] @ hex2 (of_char c))"

definition repr_str :: "string \<Rightarrow> string" where
  "repr_str s =
     (let q = (if CHR 0x27 \<in> set s \<and> CHR 0x22 \<notin> set s then CHR 0x22 else CHR 0x27)
      in q # concat (map (repr_char q) s) @ [q])"

fun join :: "string \<Rightarrow> string list \<Rightarrow> string" where
  "join sep [] = []"
| "join sep [x] = x"
| "join sep (x # y # ys) = x @ sep @ join sep (y # ys)"

fun py_repr :: "val \<Rightarrow> string"
  and repr_list :: "val list \<Rightarrow> string list"
  and repr_items :: "(string \<times> val) list \<Rightarrow> string list" where
  "py_repr VNone = ''None''"
| "py_repr (VBool b) = (if b then ''True'' else ''False'')"
| "py_repr (VInt i) = int_str i"
| "py_repr (VStr s) = repr_str s"
| "py_repr (VOid h) = ''ObjectId('' @ repr_str h @ '')''"
| "py_repr (VList vs) = ''['' @ join '', '' (repr_list vs) @ '']''"
| "py_repr (VDict kvs) = ''{'' @ join '', '' (repr_items kvs) @ ''}''"
| "repr_list [] = []"
| "repr_list (v # vs) = py_repr v # repr_list vs"
| "repr_items [] = []"
| "repr_items (kv # kvs) = (repr_str (fst kv) @ '': '' @ py_repr (snd kv)) # repr_items kvs"

fun py_str :: "val \<Rightarrow> string" where
  "py_str (VStr s) = s"
| "py_str (VOid h) = h"
| "py_str v = py_repr v"

section \<open>Errors\<close>

text \<open>
  The exceptions a handler can end with: the framework's \<^verbatim>\<open>HTTPException\<close>,
  Python's \<^verbatim>\<open>KeyError\<close> and \<^verbatim>\<open>AttributeError\<close>, the validation error of a
  schema class, and the store driver's \<^verbatim>\<open>WriteError\<close> for an update it refuses.
\<close>

datatype error =
    HTTPException (status_code: nat) (detail: string)
  | KeyError string
  | AttributeError string
  | ValidationError string
  | WriteError

section \<open>The document store\<close>

text \<open>
  Modelled from the spec: the module \<^verbatim>\<open>database\<close> (the handle \<^verbatim>\<open>db\<close>
  and \<^verbatim>\<open>create_document\<close>) is not among the sources; the spec describes it as
  a store of named collections with generic create, find, update and delete, reached
  by direct lookups. A database maps a collection name to the list of its documents
  in insertion order. A filter is a dictionary of required field values: a document
  matches when it has every field of the filter with exactly that value; the
  operations on one document act on the first match.
\<close>

type_synonym collection = "doc list"
type_synonym database = "string \<Rightarrow> collection"

definition matches :: "doc \<Rightarrow> doc \<Rightarrow> bool" where
  "matches flt d = list_all (\<lambda>kv. map_of d (fst kv) = Some (snd kv)) flt"

definition find_one :: "collection \<Rightarrow> doc \<Rightarrow> doc option" where
  "find_one c flt = List.find (matches flt) c"

definition find_docs :: "collection \<Rightarrow> doc \<Rightarrow> doc list" where
  "find_docs c flt = filter (matches flt) c"

text \<open>
  The update document \<^verbatim>\<open>{"$set": fields}\<close>. A key of \<^verbatim>\<open>fields\<close> is a path:
  field names separated by dots. The path is followed from the document: through a
  nested document by field name, through a list by a decimal index (a list too short is
  padded with nulls), and what is missing is created as nested documents. A path that
  runs into any other value cannot be followed and the update is refused. An update is
  also refused when a path has an empty component, when one path is the beginning of
  another, and when it would change the document's \<^verbatim>\<open>_id\<close>. A refused update
  writes nothing; an empty map changes nothing. The positional components \<^verbatim>\<open>$\<close> and \<^verbatim>\<open>$[]\<close> are not
  interpreted.
\<close>

fun path_components :: "string \<Rightarrow> string list" where
  "path_components [] = [[]]"
| "path_components (c # cs) =
     (if c = CHR ''.'' then [] # path_components cs
      else (case path_components cs of
              p # ps \<Rightarrow> (c # p) # ps
            | [] \<Rightarrow> [[c]]))"

definition is_index :: "string \<Rightarrow> bool" where
  "is_index k = (k \<noteq> [] \<and> list_all (\<lambda>c. c \<in> set ''0123456789'') k)"

definition index_of :: "string \<Rightarrow> nat" where
  "index_of k = foldl (\<lambda>n c. 10 * n + (of_char c - 48)) 0 k"

fun nested :: "string list \<Rightarrow> val \<Rightarrow> val" where
  "nested [] v = v"
| "nested (k # ks) v = VDict [(k, nested ks v)]"

fun set_path :: "string list \<Rightarrow> val \<Rightarrow> val \<Rightarrow> error + val" where
  "set_path [] v old = Inr v"
| "set_path (k # ks) v (VDict kvs) =
     (case map_of kvs k of
        None \<Rightarrow> Inr (VDict (kvs @ [(k, nested ks v)]))
      | Some sub \<Rightarrow>
          (case set_path ks v sub of
             Inl e \<Rightarrow> Inl e
           | Inr sub' \<Rightarrow> Inr (VDict (AList.update k sub' kvs))))"
| "set_path (k # ks) v (VList xs) =
     (if \<not> is_index k then Inl WriteError
      else if index_of k < length xs
      then (case set_path ks v (xs ! index_of k) of
              Inl e \<Rightarrow> Inl e
            | Inr x' \<Rightarrow> Inr (VList (xs[index_of k := x'])))
      else Inr (VList (xs @ replicate (index_of k - length xs) VNone @ [nested ks v])))"
| "set_path (k # ks) v old = Inl WriteError"

definition set_field :: "string \<Rightarrow> val \<Rightarrow> doc \<Rightarrow> error + doc" where
  "set_field k v d =
     (case set_path (path_components k) v (VDict d) of
        Inr (VDict d') \<Rightarrow> Inr d'
      | _ \<Rightarrow> Inl WriteError)"

fun set_all :: "doc \<Rightarrow> doc \<Rightarrow> error + doc" where
  "set_all [] d = Inr d"
| "set_all (kv # kvs) d =
     (case set_field (fst kv) (snd kv) d of
        Inl e \<Rightarrow> Inl e
      | Inr d' \<Rightarrow> set_all kvs d')"

definition set_fields :: "doc \<Rightarrow> doc \<Rightarrow> error + doc" where
  "set_fields fields d =
     (case set_all fields d of
        Inl e \<Rightarrow> Inl e
      | Inr d' \<Rightarrow> if map_of d' ''_id'' = map_of d ''_id'' then Inr d' else Inl WriteError)"

fun conflicts :: "string list list \<Rightarrow> bool" where
  "conflicts [] = False"
| "conflicts (p # ps) = (list_ex (\<lambda>q. prefix p q \<or> prefix q p) ps \<or> conflicts ps)"

definition well_formed :: "doc \<Rightarrow> bool" where
  "well_formed fields =
     (list_all (\<lambda>kv. [] \<notin> set (path_components (fst kv))) fields
      \<and> \<not> conflicts (map (\<lambda>kv. path_components (fst kv)) fields))"

fun update_first :: "collection \<Rightarrow> doc \<Rightarrow> doc \<Rightarrow> error + collection" where
  "update_first [] flt fields = Inr []"
| "update_first (d # ds) flt fields =
     (if matches flt d
      then (case set_fields fields d of
              Inl e \<Rightarrow> Inl e
            | Inr d' \<Rightarrow> Inr (d' # ds))
      else (case update_first ds flt fields of
              Inl e \<Rightarrow> Inl e
            | Inr ds' \<Rightarrow> Inr (d # ds')))"

definition update_one :: "collection \<Rightarrow> doc \<Rightarrow> doc \<Rightarrow> error + collection" where
  "update_one c flt fields =
     (if \<not> well_formed fields then Inl WriteError else update_first c flt fields)"

fun delete_one :: "collection \<Rightarrow> doc \<Rightarrow> collection" where
  "delete_one [] flt = []"
| "delete_one (d # ds) flt = (if matches flt d then ds else d # delete_one ds flt)"

text \<open>
  Modelled from the spec: \<^verbatim>\<open>create_document(collection_name, data)\<close> inserts the
  fields of the schema object \<^verbatim>\<open>data\<close> as a new document and returns its
  identifier as a string. The identifier \<open>new_id\<close> is the one the store assigns to
  the insert.
\<close>

definition create_document :: "string \<Rightarrow> doc \<Rightarrow> val \<Rightarrow> database \<Rightarrow> string \<times> database" where
  "create_document collection_name data new_id db =
     (py_str new_id,
      db(collection_name := db collection_name @ [AList.update ''_id'' new_id data]))"

section \<open>Feature gate\<close>

record FeatureFlag =
  feature_key :: string
  plan_name :: string
  allowed :: bool

definition DEFAULT_FEATURES :: "FeatureFlag list" where
  "DEFAULT_FEATURES =
    [\<lparr>feature_key = ''widget.text'', plan_name = ''free'', allowed = True\<rparr>,
     \<lparr>feature_key = ''widget.timer'', plan_name = ''free'', allowed = True\<rparr>,
     \<lparr>feature_key = ''widget.countdown'', plan_name = ''free'', allowed = True\<rparr>,
     \<lparr>feature_key = ''widget.youtube'', plan_name = ''pro'', allowed = True\<rparr>,
     \<lparr>feature_key = ''widget.goal'', plan_name = ''pro'', allowed = True\<rparr>,
     \<lparr>feature_key = ''widget.twitch_alert'', plan_name = ''pro'', allowed = True\<rparr>,
     \<lparr>feature_key = ''widget.minigame_trivia'', plan_name = ''pro'', allowed = True\<rparr>,
     \<lparr>feature_key = ''widget.minigame_poll'', plan_name = ''pro'', allowed = True\<rparr>,
     \<lparr>feature_key = ''widget.leaderboard'', plan_name = ''pro'', allowed = True\<rparr>]"

text \<open>
  The loop \<^verbatim>\<open>for f in DEFAULT_FEATURES\<close> of \<^verbatim>\<open>can_use_widget_type\<close>: the
  first entry with the key and the plan decides, and no entry means \<^verbatim>\<open>False\<close>.
\<close>

fun default_loop :: "FeatureFlag list \<Rightarrow> string \<Rightarrow> val \<Rightarrow> bool" where
  "default_loop [] key plan = False"
| "default_loop (f # fs) key plan =
     (if feature_key f = key \<and> VStr (plan_name f) = plan then allowed f
      else default_loop fs key plan)"

definition can_use_widget_type :: "database \<Rightarrow> doc \<Rightarrow> string \<Rightarrow> bool" where
  "can_use_widget_type db user widget_type =
     (let plan = get_default user ''plan'' (VStr ''free'');
          feature_key = ''widget.'' @ widget_type;
          flag = find_one (db ''featureflag'')
                   [(''feature_key'', VStr feature_key), (''plan_name'', plan)]
      in if truthy_doc flag
         then (case flag of Some f \<Rightarrow> truthy (get_default f ''allowed'' (VBool False))
                          | None \<Rightarrow> False)
         else default_loop DEFAULT_FEATURES feature_key plan)"

section \<open>Randomness\<close>

text \<open>
  \<^verbatim>\<open>secrets.token_hex(n)\<close> reads \<open>n\<close> bytes of the system's entropy and writes
  each as two hexadecimal digits; \<^verbatim>\<open>secrets.token_urlsafe(n)\<close> writes them in the
  URL-safe base-64 alphabet without padding. The entropy is an argument: the bytes the
  system hands out, by position.
\<close>

definition token_bytes :: "nat \<Rightarrow> (nat \<Rightarrow> 8 word) \<Rightarrow> nat list" where
  "token_bytes nbytes entropy = map (\<lambda>i. unat (entropy i)) [0..<nbytes]"

definition token_hex :: "nat \<Rightarrow> (nat \<Rightarrow> 8 word) \<Rightarrow> string" where
  "token_hex nbytes entropy = concat (map hex2 (token_bytes nbytes entropy))"

definition b64alphabet :: string where
  "b64alphabet = ''ABCDEFGHIJKLMNOPQRSTUVWXYZabcdefghijklmnopqrstuvwxyz0123456789-_''"

fun urlsafe_b64 :: "nat list \<Rightarrow> string" where
  "urlsafe_b64 (a # b # c # r) =
     [b64alphabet ! (a div 4), b64alphabet ! ((a mod 4) * 16 + b div 16),
      b64alphabet ! ((b mod 16) * 4 + c div 64), b64alphabet ! (c mod 64)] @ urlsafe_b64 r"
| "urlsafe_b64 [a, b] =
     [b64alphabet ! (a div 4), b64alphabet ! ((a mod 4) * 16 + b div 16),
      b64alphabet ! ((b mod 16) * 4)]"
| "urlsafe_b64 [a] = [b64alphabet ! (a div 4), b64alphabet ! ((a mod 4) * 16)]"
| "urlsafe_b64 [] = []"

definition token_urlsafe :: "nat \<Rightarrow> (nat \<Rightarrow> 8 word) \<Rightarrow> string" where
  "token_urlsafe nbytes entropy = urlsafe_b64 (token_bytes nbytes entropy)"

section \<open>Schemas and request bodies\<close>

text \<open>
  The request bodies of \<^verbatim>\<open>main.py\<close>, validated by the framework before a handler
  runs. The fields keep their names behind a prefix for the class:
  \<open>auth_\<close> for \<^verbatim>\<open>AuthRequest\<close>, \<open>co_\<close> for \<^verbatim>\<open>CreateOverlayRequest\<close>,
  \<open>cw_\<close> for \<^verbatim>\<open>CreateWidgetRequest\<close>, \<open>uw_\<close> for \<^verbatim>\<open>UpdateWidgetRequest\<close>.
\<close>

record AuthRequest =
  auth_email :: string
  auth_password :: string

record CreateOverlayRequest =
  co_name :: string
  co_width :: int
  co_height :: int

record CreateWidgetRequest =
  cw_overlay_id :: string
  cw_type :: string
  cw_x :: int
  cw_y :: int
  cw_width :: int
  cw_height :: int
  cw_z_index :: int
  cw_logic_config :: doc
  cw_cosmetic_skin_id :: "string option"
  cw_cosmetic_overrides :: doc


definition opt_str :: "string option \<Rightarrow> val" where
  "opt_str s = (case s of None \<Rightarrow> VNone | Some t \<Rightarrow> VStr t)"

text \<open>
  The schema classes of \<^verbatim>\<open>schemas.py\<close>, as the documents their instances dump
  to: every declared field in declaration order, defaults filled in.
\<close>

definition User :: "string \<Rightarrow> string option \<Rightarrow> string option \<Rightarrow> doc" where
  "User e password_hash auth_token =
     [(''email'', VStr e), (''password_hash'', opt_str password_hash),
      (''twitch_user_id'', VNone), (''role'', VStr ''owner''), (''locale'', VStr ''en''),
      (''plan'', VStr ''free''), (''created_at'', VNone), (''updated_at'', VNone),
      (''auth_token'', opt_str auth_token)]"

definition Overlay :: "string \<Rightarrow> string \<Rightarrow> int \<Rightarrow> int \<Rightarrow> string \<Rightarrow> doc" where
  "Overlay owner_user_id n w h secret_token =
     [(''owner_user_id'', VStr owner_user_id), (''name'', VStr n), (''width'', VInt w),
      (''height'', VInt h), (''secret_token'', VStr secret_token),
      (''created_at'', VNone), (''updated_at'', VNone)]"

definition WidgetType :: "string list" where
  "WidgetType = [''text'', ''timer'', ''countdown'', ''goal'', ''image'', ''youtube'',
                 ''twitch_alert'', ''minigame_trivia'', ''minigame_poll'', ''leaderboard'']"

text \<open>
  \<^verbatim>\<open>Widget(**payload.model_dump())\<close>: the field \<^verbatim>\<open>type\<close> is declared
  \<^verbatim>\<open>WidgetType\<close>, a literal of ten strings, while the request body declares it
  \<^verbatim>\<open>str\<close>; the constructor raises a validation error on any other string. The
  other fields have the types the request body has already validated.
\<close>

definition Widget :: "CreateWidgetRequest \<Rightarrow> error + doc" where
  "Widget p =
     (if cw_type p \<in> set WidgetType
      then Inr [(''overlay_id'', VStr (cw_overlay_id p)), (''type'', VStr (cw_type p)),
                (''x'', VInt (cw_x p)), (''y'', VInt (cw_y p)),
                (''width'', VInt (cw_width p)), (''height'', VInt (cw_height p)),
                (''z_index'', VInt (cw_z_index p)),
                (''logic_config'', VDict (cw_logic_config p)),
                (''cosmetic_skin_id'', opt_str (cw_cosmetic_skin_id p)),
                (''cosmetic_overrides'', VDict (cw_cosmetic_overrides p))]
      else Inl (ValidationError ''type''))"

section \<open>Authentication\<close>

text \<open>
  \<^verbatim>\<open>s.replace(old, new)\<close>: every occurrence of \<open>old\<close> in \<open>s\<close>, found from the
  left without overlap, is replaced by \<open>new\<close>.
\<close>

function replace :: "string \<Rightarrow> string \<Rightarrow> string \<Rightarrow> string" where
  "replace old new [] = (if old = [] then new else [])"
| "replace old new (c # cs) =
     (if old = [] then new @ c # replace old new cs
      else if prefix old (c # cs) then new @ replace old new (drop (length old) (c # cs))
      else c # replace old new cs)"
  by pat_completeness auto
termination
  by (relation "measure (\<lambda>(old, new, s). length s)") (auto simp: neq_Nil_conv)

text \<open>
  \<^verbatim>\<open>get_current_user\<close>, the dependency that resolves the caller from the
  \<^verbatim>\<open>Authorization\<close> header (\<open>None\<close> when the header is absent).
\<close>

definition get_current_user :: "string option \<Rightarrow> database \<Rightarrow> error + doc" where
  "get_current_user authorization db =
     (case authorization of
        None \<Rightarrow> Inl (HTTPException 401 ''Missing Authorization header'')
      | Some a \<Rightarrow>
          if a = [] then Inl (HTTPException 401 ''Missing Authorization header'')
          else
            let token = replace ''Bearer '' [] a;
                user = find_one (db ''user'') [(''auth_token'', VStr token)]
            in if \<not> truthy_doc user then Inl (HTTPException 401 ''Invalid token'')
               else (case user of Some u \<Rightarrow> Inr u
                               | None \<Rightarrow> Inl (HTTPException 401 ''Invalid token'')))"

text \<open>
  The handlers that write take the database and return it with their result: a
  raised exception leaves the database as it was when it was raised.
\<close>

definition signup ::
  "AuthRequest \<Rightarrow> (nat \<Rightarrow> 8 word) \<Rightarrow> val \<Rightarrow> database \<Rightarrow> (error + doc) \<times> database" where
  "signup payload entropy new_id db =
     (let existing = find_one (db ''user'') [(''email'', VStr (auth_email payload))]
      in if truthy_doc existing
         then (Inl (HTTPException 400 ''Email already registered''), db)
         else
           let token = token_hex 16 entropy;
               user = User (auth_email payload) (Some (auth_password payload)) (Some token);
               (user_id, db') = create_document ''user'' user new_id db
           in (Inr [(''token'', VStr token), (''user_id'', VStr user_id)], db'))"

definition signin ::
  "AuthRequest \<Rightarrow> (nat \<Rightarrow> 8 word) \<Rightarrow> database \<Rightarrow> (error + doc) \<times> database" where
  "signin payload entropy db =
     (let user = find_one (db ''user'')
                   [(''email'', VStr (auth_email payload)),
                    (''password_hash'', VStr (auth_password payload))]
      in if \<not> truthy_doc user then (Inl (HTTPException 401 ''Invalid credentials''), db)
         else
           (case user of
              None \<Rightarrow> (Inl (HTTPException 401 ''Invalid credentials''), db)
            | Some u \<Rightarrow>
                let token = (if truthy (get u ''auth_token'') then get u ''auth_token''
                             else VStr (token_hex 16 entropy))
                in (case map_of u ''_id'' of
                      None \<Rightarrow> (Inl (KeyError ''_id''), db)
                    | Some uid \<Rightarrow>
                        if \<not> truthy (get u ''auth_token'')
                        then (case update_one (db ''user'') [(''_id'', uid)]
                                     [(''auth_token'', token)] of
                                Inl e \<Rightarrow> (Inl e, db)
                              | Inr users \<Rightarrow>
                                  (Inr [(''token'', token), (''user_id'', VStr (py_str uid))],
                                   db(''user'' := users)))
                        else (Inr [(''token'', token), (''user_id'', VStr (py_str uid))],
                              db))))"

section \<open>Overlays\<close>

text \<open>
  The loop \<^verbatim>\<open>for d in docs: d["id"] = str(d.pop("_id"))\<close> of the handlers that
  return documents; \<^verbatim>\<open>pop\<close> raises on a document without the key.
\<close>

fun normalize_ids :: "doc list \<Rightarrow> error + doc list" where
  "normalize_ids [] = Inr []"
| "normalize_ids (w # ws) =
     (case map_of w ''_id'' of
        None \<Rightarrow> Inl (KeyError ''_id'')
      | Some i \<Rightarrow>
          (case normalize_ids ws of
             Inl e \<Rightarrow> Inl e
           | Inr ws' \<Rightarrow> Inr (AList.update ''id'' (VStr (py_str i)) (AList.delete ''_id'' w) # ws')))"

text \<open>The handlers that only read the store return no database.\<close>

definition list_overlays :: "doc \<Rightarrow> database \<Rightarrow> error + doc list" where
  "list_overlays user db =
     (case map_of user ''_id'' of
        None \<Rightarrow> Inl (KeyError ''_id'')
      | Some uid \<Rightarrow>
          normalize_ids (find_docs (db ''overlay'') [(''owner_user_id'', VStr (py_str uid))]))"

definition create_overlay ::
  "CreateOverlayRequest \<Rightarrow> doc \<Rightarrow> (nat \<Rightarrow> 8 word) \<Rightarrow> val \<Rightarrow> database \<Rightarrow> (error + doc) \<times> database" where
  "create_overlay payload user entropy new_id db =
     (let secret = token_urlsafe 16 entropy
      in (case map_of user ''_id'' of
            None \<Rightarrow> (Inl (KeyError ''_id''), db)
          | Some uid \<Rightarrow>
              let overlay = Overlay (py_str uid) (co_name payload) (co_width payload)
                              (co_height payload) secret;
                  (overlay_id, db') = create_document ''overlay'' overlay new_id db
              in (Inr [(''id'', VStr overlay_id), (''secret_token'', VStr secret)], db')))"

text \<open>
  \<^verbatim>\<open>delete_overlay\<close> converts the path parameter with
  \<^verbatim>\<open>db["overlay"].codec_options.document_class.objectid_class(overlay_id)\<close> before
  its first lookup. The handle \<^verbatim>\<open>db\<close> is a database of the MongoDB driver; the
  document class of a collection's codec options is the class the driver decodes
  documents into, the dictionary type by default, and no document class has an attribute
  \<^verbatim>\<open>objectid_class\<close>: reading the attribute raises \<^verbatim>\<open>AttributeError\<close>.
\<close>

definition objectid_class :: "string \<Rightarrow> error + val" where
  "objectid_class s = Inl (AttributeError ''objectid_class'')"

definition delete_overlay ::
  "string \<Rightarrow> doc \<Rightarrow> database \<Rightarrow> (error + doc) \<times> database" where
  "delete_overlay overlay_id user db =
     (case objectid_class overlay_id of
        Inl e \<Rightarrow> (Inl e, db)
      | Inr oid \<Rightarrow>
          let doc0 = find_one (db ''overlay'') [(''_id'', oid)];
              doc1 = (if \<not> truthy_doc doc0
                      then find_one (db ''overlay'') [(''_id'', VStr overlay_id)] else doc0)
          in if \<not> truthy_doc doc1 then (Inl (HTTPException 404 ''Overlay not found''), db)
             else
               (case doc1 of
                  None \<Rightarrow> (Inl (HTTPException 404 ''Overlay not found''), db)
                | Some d \<Rightarrow>
                    (case map_of user ''_id'' of
                       None \<Rightarrow> (Inl (KeyError ''_id''), db)
                     | Some uid \<Rightarrow>
                         if get d ''owner_user_id'' \<noteq> VStr (py_str uid)
                         then (Inl (HTTPException 403 ''Forbidden''), db)
                         else
                           (case map_of d ''_id'' of
                              None \<Rightarrow> (Inl (KeyError ''_id''), db)
                            | Some i \<Rightarrow>
                                (Inr [(''status'', VStr ''ok'')],
                                 db(''overlay'' := delete_one (db ''overlay'') [(''_id'', i)]))))))"

section \<open>Widgets\<close>

definition list_widgets :: "string \<Rightarrow> doc \<Rightarrow> database \<Rightarrow> error + doc list" where
  "list_widgets overlay_id user db =
     (let overlay0 = py_or (find_one (db ''overlay'') [(''_id'', VStr overlay_id)])
                           (find_one (db ''overlay'') [(''_id'', VStr overlay_id)]);
          overlay1 = (if \<not> truthy_doc overlay0
                      then find_one (db ''overlay'') [(''id'', VStr overlay_id)] else overlay0)
      in (case map_of user ''_id'' of
            None \<Rightarrow> Inl (KeyError ''_id'')
          | Some uid \<Rightarrow>
              let overlay2 = (if \<not> truthy_doc overlay1
                              then find_one (db ''overlay'')
                                     [(''owner_user_id'', VStr (py_str uid)),
                                      (''_id'', VStr overlay_id)]
                              else overlay1)
              in (case overlay2 of
                    None \<Rightarrow> Inl (HTTPException 404 ''Overlay not found'')
                  | Some ov \<Rightarrow>
                      if ov = [] then Inl (HTTPException 404 ''Overlay not found'')
                      else if get ov ''owner_user_id'' \<noteq> VStr (py_str uid)
                      then Inl (HTTPException 403 ''Forbidden'')
                      else normalize_ids
                             (find_docs (db ''widget'') [(''overlay_id'', VStr overlay_id)]))))"

definition create_widget ::
  "CreateWidgetRequest \<Rightarrow> doc \<Rightarrow> val \<Rightarrow> database \<Rightarrow> (error + doc) \<times> database" where
  "create_widget payload user new_id db =
     (if \<not> can_use_widget_type db user (cw_type payload)
      then (Inl (HTTPException 402 ''Upgrade plan to use this widget''), db)
      else
        (case Widget payload of
           Inl e \<Rightarrow> (Inl e, db)
         | Inr widget \<Rightarrow>
             let (widget_id, db') = create_document ''widget'' widget new_id db
             in (Inr [(''id'', VStr widget_id)], db')))"


section \<open>Public overlay endpoint\<close>

definition get_overlay_public :: "string \<Rightarrow> string \<Rightarrow> database \<Rightarrow> error + doc" where
  "get_overlay_public overlay_id secret db =
     (let overlay = py_or (find_one (db ''overlay'') [(''_id'', VStr overlay_id)])
                          (find_one (db ''overlay'') [(''id'', VStr overlay_id)])
      in (case overlay of
            None \<Rightarrow> Inl (HTTPException 404 ''Not found'')
          | Some ov \<Rightarrow>
              if ov = [] \<or> get ov ''secret_token'' \<noteq> VStr secret
              then Inl (HTTPException 404 ''Not found'')
              else
                (case normalize_ids (find_docs (db ''widget'') [(''overlay_id'', VStr overlay_id)]) of
                   Inl e \<Rightarrow> Inl e
                 | Inr widgets \<Rightarrow>
                     Inr [(''id'', VStr (py_str (get_default ov ''_id'' (get ov ''id'')))),
                          (''name'', get ov ''name''),
                          (''width'', get ov ''width''),
                          (''height'', get ov ''height''),
                          (''widgets'', VList (map VDict widgets))])))"

section \<open>Example data\<close>

definition empty_db :: database where
  "empty_db = (\<lambda>c. [])"

definition alice :: doc where
  "alice = [(''_id'', VStr ''u1''), (''email'', VStr ''alice@example.org''),
            (''plan'', VStr ''free'')]"

definition text_request :: CreateWidgetRequest where
  "text_request = \<lparr>cw_overlay_id = ''o2'', cw_type = ''text'', cw_x = 0, cw_y = 0,
     cw_width = 300, cw_height = 100, cw_z_index = 0, cw_logic_config = [],
     cw_cosmetic_skin_id = None, cw_cosmetic_overrides = []\<rparr>"

definition youtube_request :: CreateWidgetRequest where
  "youtube_request = \<lparr>cw_overlay_id = ''o1'', cw_type = ''youtube'', cw_x = 0, cw_y = 0,
     cw_width = 300, cw_height = 100, cw_z_index = 0, cw_logic_config = [],
     cw_cosmetic_skin_id = None, cw_cosmetic_overrides = []\<rparr>"

definition carol :: doc where
  "carol = AList.update ''_id'' (VStr ''u3'')
     (User ''carol@example.org'' (Some ''pw'') (Some ''0123456789abcdef0123456789abcdef''))"

definition carol_db :: database where
  "carol_db = empty_db(''user'' := [carol])"

definition carol_request :: AuthRequest where
  "carol_request = \<lparr>auth_email = ''carol@example.org'', auth_password = ''pw''\<rparr>"

definition zero_entropy :: "nat \<Rightarrow> 8 word" where
  "zero_entropy i = 0"

definition dave :: doc where
  "dave = [(''_id'', VStr ''u5''), (''email'', VStr ''dave@example.org''),
           (''password_hash'', VStr ''secret''), (''plan'', VStr ''free''),
           (''auth_token'', VNone)]"

definition dave_db :: database where
  "dave_db = empty_db(''user'' := [carol, dave])"

definition dave_request :: AuthRequest where
  "dave_request = \<lparr>auth_email = ''dave@example.org'', auth_password = ''secret''\<rparr>"

definition wrong_request :: AuthRequest where
  "wrong_request = \<lparr>auth_email = ''dave@example.org'', auth_password = ''guess''\<rparr>"

definition one_entropy :: "nat \<Rightarrow> 8 word" where
  "one_entropy i = 1"

definition overlay_o1 :: doc where
  "overlay_o1 = AList.update ''_id'' (VOid ''65f0c0ffee0123456789ab01'')
     (Overlay ''u1'' ''main'' 1920 1080 ''s3cret'')"

definition widget_w1 :: doc where
  "widget_w1 = [(''_id'', VOid ''65f0c0ffee0123456789ab02''),
                (''overlay_id'', VStr ''65f0c0ffee0123456789ab01''),
                (''type'', VStr ''text''), (''x'', VInt 0), (''y'', VInt 0)]"

definition stream_db :: database where
  "stream_db = empty_db(''overlay'' := [overlay_o1], ''widget'' := [widget_w1])"






definition side_request :: CreateOverlayRequest where
  "side_request = \<lparr>co_name = ''side'', co_width = 800, co_height = 600\<rparr>"

definition banner_db :: database where
  "banner_db = empty_db(''featureflag'' :=
     [[(''feature_key'', VStr ''widget.banner''), (''plan_name'', VStr ''free''),
       (''allowed'', VBool True)]])"

definition banner_request :: CreateWidgetRequest where
  "banner_request = \<lparr>cw_overlay_id = ''o2'', cw_type = ''banner'', cw_x = 0, cw_y = 0,
     cw_width = 300, cw_height = 100, cw_z_index = 0, cw_logic_config = [],
     cw_cosmetic_skin_id = None, cw_cosmetic_overrides = []\<rparr>"

definition fresh_oid :: val where
  "fresh_oid = VOid ''65f0c0ffee0123456789ab03''"

section \<open>The store's lookups\<close>

lemma find_one_Some_matches: "find_one c flt = Some d \<Longrightarrow> matches flt d"
  by (auto simp: find_one_def find_Some_iff)

lemma matches_nonempty: "matches flt d \<Longrightarrow> flt \<noteq> [] \<Longrightarrow> d \<noteq> []"
  by (cases flt) (auto simp: matches_def)

lemma find_one_truthy: "flt \<noteq> [] \<Longrightarrow> truthy_doc (find_one c flt) = (find_one c flt \<noteq> None)"
  by (cases "find_one c flt") (auto dest: find_one_Some_matches matches_nonempty)

section \<open>Resolution of the feature gate\<close>

lemma default_loop_find:
  "default_loop fs key plan =
     (case List.find (\<lambda>f. feature_key f = key \<and> VStr (plan_name f) = plan) fs of
        Some f \<Rightarrow> allowed f | None \<Rightarrow> False)"
  by (induction fs) auto

lemma can_use_override:
  assumes "find_one (db ''featureflag'')
        [(''feature_key'', VStr (''widget.'' @ widget_type)),
         (''plan_name'', get_default user ''plan'' (VStr ''free''))] = Some row"
  shows "can_use_widget_type db user widget_type =
           truthy (get_default row ''allowed'' (VBool False))"
  using assms by (simp add: can_use_widget_type_def Let_def find_one_truthy)

lemma can_use_default:
  assumes "find_one (db ''featureflag'')
        [(''feature_key'', VStr (''widget.'' @ widget_type)),
         (''plan_name'', get_default user ''plan'' (VStr ''free''))] = None"
  shows "can_use_widget_type db user widget_type =
     default_loop DEFAULT_FEATURES (''widget.'' @ widget_type)
       (get_default user ''plan'' (VStr ''free''))"
  using assms by (simp add: can_use_widget_type_def Let_def)

text \<open>
  C1. The gate looks for an override row with the key \<^verbatim>\<open>"widget." + widget_type\<close>
  and the user's plan (\<^verbatim>\<open>"free"\<close> for a user without one). When the lookup
  returns a row, the row's \<^verbatim>\<open>allowed\<close> boolean is the result, whatever the
  default table says. When it returns none, the result is the \<^verbatim>\<open>allowed\<close> value
  of the first entry of the default table with that key and plan, and false when the
  table has no such entry. So a pro user may use \<^verbatim>\<open>youtube\<close> and a free user
  may not, by the defaults; an override row allowing \<^verbatim>\<open>widget.youtube\<close> to
  \<^verbatim>\<open>free\<close> lets the free user use it.
\<close>

theorem can_use_widget_type_resolution:
  "(find_one (db ''featureflag'')
        [(''feature_key'', VStr (''widget.'' @ widget_type)),
         (''plan_name'', get_default user ''plan'' (VStr ''free''))] = Some row
      \<and> map_of row ''allowed'' = Some (VBool b)
      \<longrightarrow> can_use_widget_type db user widget_type = b)
   \<and> (find_one (db ''featureflag'')
        [(''feature_key'', VStr (''widget.'' @ widget_type)),
         (''plan_name'', get_default user ''plan'' (VStr ''free''))] = None
      \<longrightarrow> can_use_widget_type db user widget_type =
          (case List.find (\<lambda>f. feature_key f = ''widget.'' @ widget_type
                     \<and> VStr (plan_name f) = get_default user ''plan'' (VStr ''free''))
                  DEFAULT_FEATURES of
             Some f \<Rightarrow> allowed f | None \<Rightarrow> False))
   \<and> (widget_type = ''youtube'' \<and> map_of user ''plan'' = Some (VStr ''pro'')
      \<and> find_one (db ''featureflag'')
        [(''feature_key'', VStr ''widget.youtube''), (''plan_name'', VStr ''pro'')] = None
      \<longrightarrow> can_use_widget_type db user widget_type)
   \<and> (widget_type = ''youtube'' \<and> map_of user ''plan'' = Some (VStr ''free'')
      \<and> find_one (db ''featureflag'')
        [(''feature_key'', VStr ''widget.youtube''), (''plan_name'', VStr ''free'')] = None
      \<longrightarrow> \<not> can_use_widget_type db user widget_type)
   \<and> (widget_type = ''youtube'' \<and> map_of user ''plan'' = Some (VStr ''free'')
      \<and> find_one (db ''featureflag'')
        [(''feature_key'', VStr ''widget.youtube''), (''plan_name'', VStr ''free'')] =
          Some [(''feature_key'', VStr ''widget.youtube''), (''plan_name'', VStr ''free''),
                (''allowed'', VBool True)]
      \<longrightarrow> can_use_widget_type db user widget_type)"
proof (intro conjI impI)
  assume "find_one (db ''featureflag'')
        [(''feature_key'', VStr (''widget.'' @ widget_type)),
         (''plan_name'', get_default user ''plan'' (VStr ''free''))] = Some row
      \<and> map_of row ''allowed'' = Some (VBool b)"
  then show "can_use_widget_type db user widget_type = b"
    by (simp add: can_use_override get_default_def)
next
  assume "find_one (db ''featureflag'')
        [(''feature_key'', VStr (''widget.'' @ widget_type)),
         (''plan_name'', get_default user ''plan'' (VStr ''free''))] = None"
  then show "can_use_widget_type db user widget_type =
          (case List.find (\<lambda>f. feature_key f = ''widget.'' @ widget_type
                     \<and> VStr (plan_name f) = get_default user ''plan'' (VStr ''free''))
                  DEFAULT_FEATURES of
             Some f \<Rightarrow> allowed f | None \<Rightarrow> False)"
    by (simp add: can_use_default default_loop_find)
next
  assume a: "widget_type = ''youtube'' \<and> map_of user ''plan'' = Some (VStr ''pro'')
      \<and> find_one (db ''featureflag'')
        [(''feature_key'', VStr ''widget.youtube''), (''plan_name'', VStr ''pro'')] = None"
  then have "get_default user ''plan'' (VStr ''free'') = VStr ''pro''"
    by (simp add: get_default_def)
  with a show "can_use_widget_type db user widget_type"
    by (simp add: can_use_default DEFAULT_FEATURES_def)
next
  assume a: "widget_type = ''youtube'' \<and> map_of user ''plan'' = Some (VStr ''free'')
      \<and> find_one (db ''featureflag'')
        [(''feature_key'', VStr ''widget.youtube''), (''plan_name'', VStr ''free'')] = None"
  then have "get_default user ''plan'' (VStr ''free'') = VStr ''free''"
    by (simp add: get_default_def)
  with a show "\<not> can_use_widget_type db user widget_type"
    by (simp add: can_use_default DEFAULT_FEATURES_def)
next
  assume a: "widget_type = ''youtube'' \<and> map_of user ''plan'' = Some (VStr ''free'')
      \<and> find_one (db ''featureflag'')
        [(''feature_key'', VStr ''widget.youtube''), (''plan_name'', VStr ''free'')] =
          Some [(''feature_key'', VStr ''widget.youtube''), (''plan_name'', VStr ''free''),
                (''allowed'', VBool True)]"
  then have "get_default user ''plan'' (VStr ''free'') = VStr ''free''"
    by (simp add: get_default_def)
  with a show "can_use_widget_type db user widget_type"
    by (simp add: can_use_override get_default_def)
qed

theorem can_use_widget_type_resolution_witness:
  "can_use_widget_type empty_db [(''plan'', VStr ''pro'')] ''youtube''
   \<and> \<not> can_use_widget_type empty_db [(''plan'', VStr ''free'')] ''youtube''
   \<and> can_use_widget_type
        (empty_db(''featureflag'' :=
           [[(''feature_key'', VStr ''widget.youtube''), (''plan_name'', VStr ''free''),
             (''allowed'', VBool True)]]))
        [(''plan'', VStr ''free'')] ''youtube''
   \<and> \<not> can_use_widget_type
        (empty_db(''featureflag'' :=
           [[(''feature_key'', VStr ''widget.text''), (''plan_name'', VStr ''free''),
             (''allowed'', VBool False)]]))
        [(''plan'', VStr ''free'')] ''text''"
proof -
  have pro: "can_use_widget_type empty_db [(''plan'', VStr ''pro'')] ''youtube''"
    using can_use_widget_type_resolution [of empty_db "''youtube''" "[(''plan'', VStr ''pro'')]"]
    by (simp add: empty_db_def find_one_def get_default_def DEFAULT_FEATURES_def)
  have free: "\<not> can_use_widget_type empty_db [(''plan'', VStr ''free'')] ''youtube''"
    using can_use_widget_type_resolution [of empty_db "''youtube''" "[(''plan'', VStr ''free'')]"]
    by (simp add: empty_db_def find_one_def get_default_def DEFAULT_FEATURES_def)
  have override: "can_use_widget_type
        (empty_db(''featureflag'' :=
           [[(''feature_key'', VStr ''widget.youtube''), (''plan_name'', VStr ''free''),
             (''allowed'', VBool True)]]))
        [(''plan'', VStr ''free'')] ''youtube''"
    using can_use_widget_type_resolution [of "empty_db(''featureflag'' :=
           [[(''feature_key'', VStr ''widget.youtube''), (''plan_name'', VStr ''free''),
             (''allowed'', VBool True)]])" "''youtube''" "[(''plan'', VStr ''free'')]"]
    by (simp add: find_one_def matches_def get_default_def DEFAULT_FEATURES_def)
  have deny: "\<not> can_use_widget_type
        (empty_db(''featureflag'' :=
           [[(''feature_key'', VStr ''widget.text''), (''plan_name'', VStr ''free''),
             (''allowed'', VBool False)]]))
        [(''plan'', VStr ''free'')] ''text''"
    using can_use_widget_type_resolution [of "empty_db(''featureflag'' :=
           [[(''feature_key'', VStr ''widget.text''), (''plan_name'', VStr ''free''),
             (''allowed'', VBool False)]])" "''text''" "[(''plan'', VStr ''free'')]"
           "[(''feature_key'', VStr ''widget.text''), (''plan_name'', VStr ''free''),
             (''allowed'', VBool False)]" False]
    by (simp add: find_one_def matches_def get_default_def)
  from pro free override deny show ?thesis by simp
qed

lemma default_loop_free:
  assumes "t = ''text'' \<or> t = ''timer'' \<or> t = ''countdown''"
  shows "default_loop DEFAULT_FEATURES (''widget.'' @ t) p = (p = VStr ''free'')"
  using assms by (elim disjE) (simp_all add: DEFAULT_FEATURES_def eq_commute)

lemma default_loop_pro:
  assumes "t = ''youtube'' \<or> t = ''goal'' \<or> t = ''twitch_alert'' \<or> t = ''minigame_trivia''
           \<or> t = ''minigame_poll'' \<or> t = ''leaderboard''"
  shows "default_loop DEFAULT_FEATURES (''widget.'' @ t) p = (p = VStr ''pro'')"
  using assms by (elim disjE) (simp_all add: DEFAULT_FEATURES_def eq_commute)

lemma default_loop_image: "\<not> default_loop DEFAULT_FEATURES (''widget.'' @ ''image'') p"
  by (simp add: DEFAULT_FEATURES_def)

lemma WidgetType_cases:
  assumes "t \<in> set WidgetType" "t \<noteq> ''image''"
  shows "(t = ''text'' \<or> t = ''timer'' \<or> t = ''countdown'') \<or>
     (t = ''youtube'' \<or> t = ''goal'' \<or> t = ''twitch_alert'' \<or> t = ''minigame_trivia''
           \<or> t = ''minigame_poll'' \<or> t = ''leaderboard'')"
  using assms unfolding WidgetType_def
  by (simp only: list.set insert_iff empty_iff) (elim disjE, simp_all only: simp_thms)


lemma default_loop_one_plan:
  assumes "t \<in> set WidgetType" "t \<noteq> ''image''"
  shows "\<exists>!p. default_loop DEFAULT_FEATURES (''widget.'' @ t) p"
proof -
  from WidgetType_cases [OF assms] show ?thesis
  proof
    assume "t = ''text'' \<or> t = ''timer'' \<or> t = ''countdown''"
    then have "default_loop DEFAULT_FEATURES (''widget.'' @ t) = (\<lambda>p. p = VStr ''free'')"
      by (intro ext) (rule default_loop_free)
    then show ?thesis by (simp only: ex1_eq)
  next
    assume "t = ''youtube'' \<or> t = ''goal'' \<or> t = ''twitch_alert'' \<or> t = ''minigame_trivia''
           \<or> t = ''minigame_poll'' \<or> t = ''leaderboard''"
    then have "default_loop DEFAULT_FEATURES (''widget.'' @ t) = (\<lambda>p. p = VStr ''pro'')"
      by (intro ext) (rule default_loop_pro)
    then show ?thesis by (simp only: ex1_eq)
  qed
qed

text \<open>
  C10. Without a matching override row the gate grants a widget type to the one plan
  of its entry in the default table. The claim that each widget type goes to exactly
  one plan fails for \<^verbatim>\<open>image\<close>, a declared widget type with no entry: it is
  granted to neither plan.
\<close>

theorem default_gate_image_counterexample:
  "''image'' \<in> set WidgetType
   \<and> \<not> can_use_widget_type empty_db [(''plan'', VStr ''free'')] ''image''
   \<and> \<not> can_use_widget_type empty_db [(''plan'', VStr ''pro'')] ''image''"
  by (simp add: WidgetType_def can_use_widget_type_def empty_db_def find_one_def
      get_default_def DEFAULT_FEATURES_def)

text \<open>
  C10, as amended. When no override row matches, every declared widget type other than
  \<^verbatim>\<open>image\<close> is granted to exactly one plan value, and \<^verbatim>\<open>image\<close> to
  none. The types \<^verbatim>\<open>text\<close>, \<^verbatim>\<open>timer\<close> and \<^verbatim>\<open>countdown\<close> are
  granted to a free user and refused to a pro user: the pro plan does not inherit them.
\<close>

theorem default_gate_one_plan:
  assumes "\<forall>p. find_one (db ''featureflag'')
             [(''feature_key'', VStr (''widget.'' @ t)), (''plan_name'', p)] = None"
  shows "(t \<in> set WidgetType \<and> t \<noteq> ''image''
            \<longrightarrow> (\<exists>!p. can_use_widget_type db [(''plan'', p)] t))
       \<and> (t = ''image'' \<longrightarrow> (\<forall>p. \<not> can_use_widget_type db [(''plan'', p)] t))
       \<and> ((t = ''text'' \<or> t = ''timer'' \<or> t = ''countdown'')
            \<and> map_of user ''plan'' = Some (VStr ''pro'')
            \<longrightarrow> \<not> can_use_widget_type db user t)
       \<and> ((t = ''text'' \<or> t = ''timer'' \<or> t = ''countdown'')
            \<and> get_default user ''plan'' (VStr ''free'') = VStr ''free''
            \<longrightarrow> can_use_widget_type db user t)"
proof -
  have gate: "can_use_widget_type db u t =
      default_loop DEFAULT_FEATURES (''widget.'' @ t) (get_default u ''plan'' (VStr ''free''))" for u
    using assms by (simp add: can_use_default)
  have plan: "get_default [(''plan'', p)] ''plan'' (VStr ''free'') = p" for p
    by (simp add: get_default_def)
  have one: "t \<in> set WidgetType \<and> t \<noteq> ''image''
            \<longrightarrow> (\<exists>!p. can_use_widget_type db [(''plan'', p)] t)"
    using default_loop_one_plan [of t] by (simp only: gate plan) simp
  have none: "t = ''image'' \<longrightarrow> (\<forall>p. \<not> can_use_widget_type db [(''plan'', p)] t)"
    using default_loop_image by (simp only: gate plan) simp
  have pro: "(t = ''text'' \<or> t = ''timer'' \<or> t = ''countdown'')
            \<and> map_of user ''plan'' = Some (VStr ''pro'')
            \<longrightarrow> \<not> can_use_widget_type db user t"
  proof (intro impI, elim conjE)
    assume t: "t = ''text'' \<or> t = ''timer'' \<or> t = ''countdown''"
      and p: "map_of user ''plan'' = Some (VStr ''pro'')"
    from p have "get_default user ''plan'' (VStr ''free'') = VStr ''pro''"
      by (simp add: get_default_def)
    then have "can_use_widget_type db user t = (VStr ''pro'' = VStr ''free'')"
      by (simp only: gate default_loop_free [OF t])
    then show "\<not> can_use_widget_type db user t" by simp
  qed
  have free: "(t = ''text'' \<or> t = ''timer'' \<or> t = ''countdown'')
            \<and> get_default user ''plan'' (VStr ''free'') = VStr ''free''
            \<longrightarrow> can_use_widget_type db user t"
  proof (intro impI, elim conjE)
    assume t: "t = ''text'' \<or> t = ''timer'' \<or> t = ''countdown''"
      and p: "get_default user ''plan'' (VStr ''free'') = VStr ''free''"
    then have "can_use_widget_type db user t = (VStr ''free'' = VStr ''free'')"
      by (simp only: gate default_loop_free [OF t])
    then show "can_use_widget_type db user t" by simp
  qed
  from one none pro free show ?thesis by (intro conjI)
qed

theorem default_gate_one_plan_witness:
  "(\<exists>!p. can_use_widget_type empty_db [(''plan'', p)] ''text'')
   \<and> \<not> can_use_widget_type empty_db [(''plan'', VStr ''pro'')] ''text''
   \<and> can_use_widget_type empty_db [(''plan'', VStr ''free'')] ''text''"
proof -
  have h: "\<forall>p. find_one (empty_db ''featureflag'')
             [(''feature_key'', VStr (''widget.'' @ ''text'')), (''plan_name'', p)] = None"
    by (simp add: empty_db_def find_one_def)
  have ty: "''text'' \<in> set WidgetType \<and> ''text'' \<noteq> ''image''"
    by (simp add: WidgetType_def)
  have pl: "map_of [(''plan'', VStr ''pro'')] ''plan'' = Some (VStr ''pro'')"
    "get_default [(''plan'', VStr ''free'')] ''plan'' (VStr ''free'') = VStr ''free''"
    by (simp_all add: get_default_def)
  from default_gate_one_plan [of empty_db "''text''" "[(''plan'', VStr ''pro'')]", OF h] ty pl
    default_gate_one_plan [of empty_db "''text''" "[(''plan'', VStr ''free'')]", OF h]
  show ?thesis by simp
qed

section \<open>Creating a widget\<close>

lemma can_use_ignores_overlay:
  "can_use_widget_type (db(''overlay'' := overlays)) user t = can_use_widget_type db user t"
  by (simp add: can_use_widget_type_def)

lemma create_widget_allowed:
  assumes "can_use_widget_type db user (cw_type payload)" "Widget payload = Inr w"
  shows "create_widget payload user new_id db =
           (Inr [(''id'', VStr (py_str new_id))],
            db(''widget'' := db ''widget'' @ [AList.update ''_id'' new_id w]))"
  using assms by (simp add: create_widget_def create_document_def)

lemma Widget_valid:
  assumes "cw_type payload \<in> set WidgetType"
  shows "\<exists>w. Widget payload = Inr w
     \<and> map_of w ''overlay_id'' = Some (VStr (cw_overlay_id payload))
     \<and> map_of w ''type'' = Some (VStr (cw_type payload))"
  unfolding Widget_def using assms by (simp only: if_True) simp

lemma create_widget_undeclared_type:
  assumes "can_use_widget_type db user (cw_type payload)"
    and "cw_type payload \<notin> set WidgetType"
  shows "create_widget payload user new_id db = (Inl (ValidationError ''type''), db)"
  using assms unfolding create_widget_def Widget_def by (simp only: if_False if_True not_not) simp

text \<open>
  C3. The claim that \<^verbatim>\<open>create_widget\<close> persists a widget whenever the caller's plan
  allows the widget type fails for a type that is not declared: the request body takes
  any string as \<^verbatim>\<open>type\<close>, an override row can allow \<^verbatim>\<open>widget.banner\<close> to
  the free plan, and the \<^verbatim>\<open>Widget\<close> constructor then raises a validation error,
  so that nothing is persisted.
\<close>

theorem create_widget_undeclared_type_counterexample:
  "can_use_widget_type banner_db alice (cw_type banner_request)
   \<and> create_widget banner_request alice (VStr ''w1'') banner_db
        = (Inl (ValidationError ''type''), banner_db)
   \<and> snd (create_widget banner_request alice (VStr ''w1'') banner_db) ''widget'' = []"
proof -
  have g: "can_use_widget_type banner_db alice (cw_type banner_request)"
    by (simp add: can_use_widget_type_def banner_db_def find_one_def matches_def alice_def
        banner_request_def get_default_def)
  have t: "cw_type banner_request \<notin> set WidgetType"
    by (simp add: banner_request_def WidgetType_def)
  have r: "create_widget banner_request alice (VStr ''w1'') banner_db
        = (Inl (ValidationError ''type''), banner_db)"
    by (rule create_widget_undeclared_type [of banner_db alice banner_request, OF g t])
  have e: "banner_db ''widget'' = []"
    by (simp add: banner_db_def empty_db_def)
  from g r e show ?thesis by simp
qed

text \<open>
  C3, as amended. For a caller whose plan is allowed the widget type by the gate, and a
  type that is one of the declared widget types, \<^verbatim>\<open>create_widget\<close> appends one
  widget document whose \<^verbatim>\<open>overlay_id\<close> is the payload's and returns the new
  identifier. The overlay collection is never read: whatever overlays are stored, none
  or only other users', the result and the widget collection written are the same.
\<close>

theorem create_widget_no_ownership_check:
  assumes "can_use_widget_type db user (cw_type payload)"
    and "cw_type payload \<in> set WidgetType"
  shows "(\<exists>w. create_widget payload user new_id db =
             (Inr [(''id'', VStr (py_str new_id))], db(''widget'' := db ''widget'' @ [w]))
           \<and> map_of w ''overlay_id'' = Some (VStr (cw_overlay_id payload))
           \<and> map_of w ''type'' = Some (VStr (cw_type payload))
           \<and> map_of w ''_id'' = Some new_id)
       \<and> fst (create_widget payload user new_id (db(''overlay'' := overlays)))
           = fst (create_widget payload user new_id db)
       \<and> snd (create_widget payload user new_id (db(''overlay'' := overlays))) ''widget''
           = snd (create_widget payload user new_id db) ''widget''"
proof -
  from Widget_valid [OF assms(2)] obtain w where w: "Widget payload = Inr w"
    and ov: "map_of w ''overlay_id'' = Some (VStr (cw_overlay_id payload))"
    and ty: "map_of w ''type'' = Some (VStr (cw_type payload))"
    by (elim exE conjE)
  let ?w = "AList.update ''_id'' new_id w"
  have run: "create_widget payload user new_id db =
      (Inr [(''id'', VStr (py_str new_id))], db(''widget'' := db ''widget'' @ [?w]))"
    by (rule create_widget_allowed [OF assms(1) w])
  have f1: "map_of ?w ''overlay_id'' = Some (VStr (cw_overlay_id payload))"
    using ov by (simp add: update_conv')
  have f2: "map_of ?w ''type'' = Some (VStr (cw_type payload))"
    using ty by (simp add: update_conv')
  have f3: "map_of ?w ''_id'' = Some new_id"
    by (simp add: update_conv')
  have gate: "can_use_widget_type (db(''overlay'' := overlays)) user (cw_type payload)"
    using assms(1) by (simp only: can_use_ignores_overlay)
  have run2: "create_widget payload user new_id (db(''overlay'' := overlays)) =
      (Inr [(''id'', VStr (py_str new_id))],
       (db(''overlay'' := overlays))(''widget'' := (db(''overlay'' := overlays)) ''widget'' @ [?w]))"
    by (rule create_widget_allowed [OF gate w])
  have a: "\<exists>w. create_widget payload user new_id db =
             (Inr [(''id'', VStr (py_str new_id))], db(''widget'' := db ''widget'' @ [w]))
           \<and> map_of w ''overlay_id'' = Some (VStr (cw_overlay_id payload))
           \<and> map_of w ''type'' = Some (VStr (cw_type payload))
           \<and> map_of w ''_id'' = Some new_id"
    using run f1 f2 f3 by (intro exI [of _ ?w] conjI)
  have b: "fst (create_widget payload user new_id (db(''overlay'' := overlays)))
           = fst (create_widget payload user new_id db)"
    by (simp only: run run2 fst_conv)
  have c: "snd (create_widget payload user new_id (db(''overlay'' := overlays))) ''widget''
           = snd (create_widget payload user new_id db) ''widget''"
    by (simp add: run run2)
  from a b c show ?thesis by (intro conjI)
qed

theorem create_widget_no_ownership_check_witness:
  "can_use_widget_type empty_db alice (cw_type text_request)
   \<and> cw_type text_request \<in> set WidgetType
   \<and> empty_db ''overlay'' = []
   \<and> fst (create_widget text_request alice (VStr ''w1'') empty_db) = Inr [(''id'', VStr ''w1'')]
   \<and> map (\<lambda>w. map_of w ''overlay_id'')
        (snd (create_widget text_request alice (VStr ''w1'') empty_db) ''widget'')
      = [Some (VStr ''o2'')]"
proof -
  have g: "can_use_widget_type empty_db alice (cw_type text_request)"
    by (simp add: can_use_widget_type_def empty_db_def find_one_def alice_def text_request_def
        get_default_def DEFAULT_FEATURES_def)
  have t: "cw_type text_request \<in> set WidgetType"
    by (simp add: text_request_def WidgetType_def)
  have e: "empty_db ''overlay'' = []" "empty_db ''widget'' = []"
    by (simp_all add: empty_db_def)
  have o: "cw_overlay_id text_request = ''o2''"
    by (simp add: text_request_def)
  from create_widget_no_ownership_check [OF g t, of "VStr ''w1''", THEN conjunct1]
  obtain w where r: "create_widget text_request alice (VStr ''w1'') empty_db =
             (Inr [(''id'', VStr (py_str (VStr ''w1'')))],
              empty_db(''widget'' := empty_db ''widget'' @ [w]))"
    and f: "map_of w ''overlay_id'' = Some (VStr (cw_overlay_id text_request))"
    by (elim exE conjE)
  have "fst (create_widget text_request alice (VStr ''w1'') empty_db) = Inr [(''id'', VStr ''w1'')]"
    by (simp add: r)
  moreover have "map (\<lambda>w. map_of w ''overlay_id'')
        (snd (create_widget text_request alice (VStr ''w1'') empty_db) ''widget'')
      = [Some (VStr ''o2'')]"
    by (simp add: r e f o)
  ultimately show ?thesis using g t e by (intro conjI)
qed

text \<open>
  C4. When the gate denies the widget type to the caller's plan, \<^verbatim>\<open>create_widget\<close>
  raises the HTTP error 402 and the database, the widget collection in particular, is
  left as it was.
\<close>

theorem create_widget_denied:
  assumes "\<not> can_use_widget_type db user (cw_type payload)"
  shows "create_widget payload user new_id db =
           (Inl (HTTPException 402 ''Upgrade plan to use this widget''), db)
       \<and> snd (create_widget payload user new_id db) ''widget'' = db ''widget''"
  using assms by (simp add: create_widget_def)

theorem create_widget_denied_witness:
  "\<not> can_use_widget_type empty_db alice (cw_type youtube_request)
   \<and> create_widget youtube_request alice (VStr ''w1'') empty_db =
           (Inl (HTTPException 402 ''Upgrade plan to use this widget''), empty_db)
   \<and> snd (create_widget youtube_request alice (VStr ''w1'') empty_db) ''widget'' = []"
proof -
  have g: "\<not> can_use_widget_type empty_db alice (cw_type youtube_request)"
    by (simp add: can_use_widget_type_def empty_db_def find_one_def alice_def
        youtube_request_def get_default_def DEFAULT_FEATURES_def)
  have e: "empty_db ''widget'' = []"
    by (simp add: empty_db_def)
  from create_widget_denied [OF g, of "VStr ''w1''"] g e show ?thesis
    by simp
qed

section \<open>Resolving the caller\<close>

lemma get_current_user_missing:
  "get_current_user None db = Inl (HTTPException 401 ''Missing Authorization header'')"
  "get_current_user (Some []) db = Inl (HTTPException 401 ''Missing Authorization header'')"
  by (simp_all add: get_current_user_def)

lemma get_current_user_no_match:
  assumes "a \<noteq> []"
    and "find_one (db ''user'') [(''auth_token'', VStr (replace ''Bearer '' [] a))] = None"
  shows "get_current_user (Some a) db = Inl (HTTPException 401 ''Invalid token'')"
  using assms by (simp add: get_current_user_def)

lemma get_current_user_match:
  assumes "a \<noteq> []"
    and "find_one (db ''user'') [(''auth_token'', VStr (replace ''Bearer '' [] a))] = Some u"
  shows "get_current_user (Some a) db = Inr u"
  using assms by (simp add: get_current_user_def find_one_truthy)

text \<open>
  C6. \<^verbatim>\<open>get_current_user\<close> removes the text \<^verbatim>\<open>"Bearer "\<close> with
  \<^verbatim>\<open>str.replace\<close>, which removes every occurrence and not only a leading one.
  For the header \<^verbatim>\<open>Bearer 0123456789abcdefBearer 0123456789abcdef\<close> the token
  looked up is \<^verbatim>\<open>0123456789abcdef0123456789abcdef\<close>, and the user holding that
  token is returned, although no user's token equals what follows the prefix.
\<close>

theorem get_current_user_inner_bearer:
  "replace ''Bearer '' [] ''Bearer 0123456789abcdefBearer 0123456789abcdef''
      = ''0123456789abcdef0123456789abcdef''
   \<and> get_current_user (Some ''Bearer 0123456789abcdefBearer 0123456789abcdef'') carol_db
      = Inr carol
   \<and> find_one (carol_db ''user'')
        [(''auth_token'', VStr ''0123456789abcdefBearer 0123456789abcdef'')] = None"
proof -
  have r: "replace ''Bearer '' [] ''Bearer 0123456789abcdefBearer 0123456789abcdef''
      = ''0123456789abcdef0123456789abcdef''"
    by simp
  have c: "map_of carol ''auth_token'' = Some (VStr ''0123456789abcdef0123456789abcdef'')"
    "carol \<noteq> []"
    by (simp_all add: carol_def User_def opt_str_def)
  have f: "find_one (carol_db ''user'') [(''auth_token'', VStr ''0123456789abcdef0123456789abcdef'')]
      = Some carol"
    using c by (simp add: carol_db_def find_one_def matches_def)
  have g: "get_current_user (Some ''Bearer 0123456789abcdefBearer 0123456789abcdef'') carol_db
      = Inr carol"
    by (simp add: get_current_user_def r f c)
  have n: "find_one (carol_db ''user'')
        [(''auth_token'', VStr ''0123456789abcdefBearer 0123456789abcdef'')] = None"
    using c by (simp add: carol_db_def find_one_def matches_def)
  from r g n show ?thesis by (intro conjI)
qed

section \<open>Signing up\<close>

lemma find_one_None_iff: "find_one c flt = None \<longleftrightarrow> (\<forall>d\<in>set c. \<not> matches flt d)"
  by (auto simp: find_one_def find_None_iff)

lemma matches_single: "matches [(k, v)] d \<longleftrightarrow> map_of d k = Some v"
  by (simp add: matches_def)

lemma length_hex2: "length (hex2 n) = 2"
  by (simp add: hex2_def)

lemma set_hex2: "set (hex2 n) \<subseteq> set hexdigits"
proof -
  have "length hexdigits = 16" by (simp add: hexdigits_def)
  then have "hexdigits ! (k mod 16) \<in> set hexdigits" for k
    by (intro nth_mem) simp
  then show ?thesis by (simp add: hex2_def)
qed

lemma length_token_hex: "length (token_hex n entropy) = 2 * n"
proof -
  have "length (concat (map hex2 xs)) = 2 * length xs" for xs
    by (induction xs) (simp_all add: length_hex2)
  from this [of "token_bytes n entropy"] show ?thesis
    by (simp add: token_hex_def token_bytes_def)
qed

lemma set_token_hex: "set (token_hex n entropy) \<subseteq> set hexdigits"
  using set_hex2 by (auto simp: token_hex_def)

lemma hexdigits_nth_inj:
  assumes "i < 16" "j < 16" "hexdigits ! i = hexdigits ! j"
  shows "i = j"
proof -
  have "distinct hexdigits" "length hexdigits = 16"
    by (simp_all add: hexdigits_def)
  with assms show ?thesis by (simp add: nth_eq_iff_index_eq)
qed

lemma hex2_inj:
  assumes "a < 256" "b < 256" "hex2 a = hex2 b"
  shows "a = b"
proof -
  from assms(3) have h: "hexdigits ! ((a div 16) mod 16) = hexdigits ! ((b div 16) mod 16)"
    and l: "hexdigits ! (a mod 16) = hexdigits ! (b mod 16)"
    by (simp_all add: hex2_def)
  have "(a div 16) mod 16 = (b div 16) mod 16"
    by (rule hexdigits_nth_inj [OF _ _ h]) simp_all
  moreover have "a mod 16 = b mod 16"
    by (rule hexdigits_nth_inj [OF _ _ l]) simp_all
  moreover from assms(1,2) have "a div 16 < 16" "b div 16 < 16" by simp_all
  ultimately have "a div 16 = b div 16" "a mod 16 = b mod 16" by simp_all
  then show ?thesis by (metis div_mult_mod_eq)
qed

lemma concat_hex2_inj:
  assumes "length xs = length ys" "concat (map hex2 xs) = concat (map hex2 ys)"
  shows "map hex2 xs = map hex2 ys"
  using assms
proof (induction xs ys rule: list_induct2)
  case Nil
  then show ?case by simp
next
  case (Cons x xs y ys)
  from Cons.prems have "hex2 x @ concat (map hex2 xs) = hex2 y @ concat (map hex2 ys)"
    by simp
  then have "hex2 x = hex2 y \<and> concat (map hex2 xs) = concat (map hex2 ys)"
    by (subst (asm) append_eq_append_conv) (simp_all add: length_hex2)
  with Cons.IH show ?case by simp
qed

lemma token_hex_inj:
  "token_hex n e1 = token_hex n e2 \<longleftrightarrow> (\<forall>i<n. e1 i = e2 i)"
proof
  assume eq: "token_hex n e1 = token_hex n e2"
  have len: "length (token_bytes n e1) = length (token_bytes n e2)"
    by (simp add: token_bytes_def)
  from concat_hex2_inj [OF len] eq
  have m: "map hex2 (token_bytes n e1) = map hex2 (token_bytes n e2)"
    by (simp add: token_hex_def)
  show "\<forall>i<n. e1 i = e2 i"
  proof (intro allI impI)
    fix i assume i: "i < n"
    from m have "map hex2 (token_bytes n e1) ! i = map hex2 (token_bytes n e2) ! i" by simp
    with i have "hex2 (unat (e1 i)) = hex2 (unat (e2 i))"
      by (simp add: token_bytes_def)
    moreover have "unat (e1 i) < 256" "unat (e2 i) < 256"
      using unsigned_less [of "e1 i"] unsigned_less [of "e2 i"] by simp_all
    ultimately have "unat (e1 i) = unat (e2 i)" by (intro hex2_inj)
    then show "e1 i = e2 i" by (simp add: word_unat_eq_iff)
  qed
next
  assume "\<forall>i<n. e1 i = e2 i"
  then have "token_bytes n e1 = token_bytes n e2"
    by (simp add: token_bytes_def)
  then show "token_hex n e1 = token_hex n e2"
    by (simp add: token_hex_def)
qed

lemma signup_existing:
  assumes "find_one (db ''user'') [(''email'', VStr (auth_email payload))] \<noteq> None"
  shows "signup payload entropy new_id db =
           (Inl (HTTPException 400 ''Email already registered''), db)"
  using assms by (simp add: signup_def find_one_truthy)

lemma signup_new:
  assumes "find_one (db ''user'') [(''email'', VStr (auth_email payload))] = None"
  shows "signup payload entropy new_id db =
           (Inr [(''token'', VStr (token_hex 16 entropy)), (''user_id'', VStr (py_str new_id))],
            db(''user'' := db ''user'' @
                 [AList.update ''_id'' new_id
                    (User (auth_email payload) (Some (auth_password payload))
                       (Some (token_hex 16 entropy)))]))"
  using assms by (simp add: signup_def create_document_def Let_def)

lemma User_fields:
  "map_of (AList.update ''_id'' i (User e (Some p) (Some t))) ''email'' = Some (VStr e)"
  "map_of (AList.update ''_id'' i (User e (Some p) (Some t))) ''auth_token'' = Some (VStr t)"
  "map_of (AList.update ''_id'' i (User e (Some p) (Some t))) ''password_hash'' = Some (VStr p)"
  "map_of (AList.update ''_id'' i (User e (Some p) (Some t))) ''_id'' = Some i"
  by (simp_all add: update_conv' User_def opt_str_def)

text \<open>
  C7. When a stored user already has the email of the request, \<^verbatim>\<open>signup\<close> raises
  the HTTP error 400 and leaves the database as it was. When no stored user has it,
  \<^verbatim>\<open>signup\<close> appends one user document carrying the email and a token newly drawn
  from the system's entropy, and returns that token with the new user's identifier. The
  token is always 32 characters long, each a hexadecimal digit, and it is the sixteen
  entropy bytes of the call written out: two draws give the same token exactly when their
  sixteen bytes are the same.
\<close>

theorem signup_conflict_or_fresh_user:
  "((\<exists>u\<in>set (db ''user''). map_of u ''email'' = Some (VStr (auth_email payload)))
      \<longrightarrow> signup payload entropy new_id db =
            (Inl (HTTPException 400 ''Email already registered''), db))
   \<and> ((\<forall>u\<in>set (db ''user''). map_of u ''email'' \<noteq> Some (VStr (auth_email payload)))
      \<longrightarrow> (\<exists>u. signup payload entropy new_id db =
                 (Inr [(''token'', VStr (token_hex 16 entropy)),
                       (''user_id'', VStr (py_str new_id))],
                  db(''user'' := db ''user'' @ [u]))
               \<and> map_of u ''email'' = Some (VStr (auth_email payload))
               \<and> map_of u ''auth_token'' = Some (VStr (token_hex 16 entropy))
               \<and> map_of u ''_id'' = Some new_id))
   \<and> length (token_hex 16 entropy) = 32
   \<and> set (token_hex 16 entropy) \<subseteq> set ''0123456789abcdef''
   \<and> (token_hex 16 entropy = token_hex 16 entropy2 \<longleftrightarrow> (\<forall>i<16. entropy i = entropy2 i))"
proof (intro conjI impI)
  assume "\<exists>u\<in>set (db ''user''). map_of u ''email'' = Some (VStr (auth_email payload))"
  then have "find_one (db ''user'') [(''email'', VStr (auth_email payload))] \<noteq> None"
    by (simp add: find_one_None_iff matches_single)
  then show "signup payload entropy new_id db =
            (Inl (HTTPException 400 ''Email already registered''), db)"
    by (rule signup_existing)
next
  assume "\<forall>u\<in>set (db ''user''). map_of u ''email'' \<noteq> Some (VStr (auth_email payload))"
  then have "find_one (db ''user'') [(''email'', VStr (auth_email payload))] = None"
    by (simp add: find_one_None_iff matches_single)
  from signup_new [of db payload entropy new_id, OF this]
  show "\<exists>u. signup payload entropy new_id db =
                 (Inr [(''token'', VStr (token_hex 16 entropy)),
                       (''user_id'', VStr (py_str new_id))],
                  db(''user'' := db ''user'' @ [u]))
               \<and> map_of u ''email'' = Some (VStr (auth_email payload))
               \<and> map_of u ''auth_token'' = Some (VStr (token_hex 16 entropy))
               \<and> map_of u ''_id'' = Some new_id"
    by (intro exI [of _ "AList.update ''_id'' new_id
                    (User (auth_email payload) (Some (auth_password payload))
                       (Some (token_hex 16 entropy)))"] conjI User_fields)
next
  show "length (token_hex 16 entropy) = 32"
    by (simp add: length_token_hex)
next
  show "set (token_hex 16 entropy) \<subseteq> set ''0123456789abcdef''"
    using set_token_hex [of 16 entropy] by (simp only: hexdigits_def)
next
  show "token_hex 16 entropy = token_hex 16 entropy2 \<longleftrightarrow> (\<forall>i<16. entropy i = entropy2 i)"
    by (rule token_hex_inj)
qed

theorem signup_conflict_or_fresh_user_witness:
  "(\<exists>u\<in>set (carol_db ''user''). map_of u ''email'' = Some (VStr (auth_email carol_request)))
   \<and> signup carol_request zero_entropy (VStr ''u4'') carol_db =
        (Inl (HTTPException 400 ''Email already registered''), carol_db)
   \<and> empty_db ''user'' = []
   \<and> fst (signup carol_request zero_entropy (VStr ''u4'') empty_db) =
        Inr [(''token'', VStr (token_hex 16 zero_entropy)), (''user_id'', VStr ''u4'')]
   \<and> length (snd (signup carol_request zero_entropy (VStr ''u4'') empty_db) ''user'') = 1
   \<and> token_hex 16 zero_entropy \<noteq> token_hex 16 one_entropy"
proof -
  have dup: "\<exists>u\<in>set (carol_db ''user''). map_of u ''email'' = Some (VStr (auth_email carol_request))"
    by (simp add: carol_db_def carol_def carol_request_def User_def update_conv')
  have new: "\<forall>u\<in>set (empty_db ''user''). map_of u ''email'' \<noteq> Some (VStr (auth_email carol_request))"
    by (simp add: empty_db_def)
  from signup_conflict_or_fresh_user
         [of carol_db carol_request zero_entropy "VStr ''u4''", THEN conjunct1, THEN mp, OF dup]
  have a: "signup carol_request zero_entropy (VStr ''u4'') carol_db =
        (Inl (HTTPException 400 ''Email already registered''), carol_db)"
    .
  from signup_conflict_or_fresh_user
         [of empty_db carol_request zero_entropy "VStr ''u4''", THEN conjunct2, THEN conjunct1,
          THEN mp, OF new]
  obtain u where b: "signup carol_request zero_entropy (VStr ''u4'') empty_db =
                 (Inr [(''token'', VStr (token_hex 16 zero_entropy)),
                       (''user_id'', VStr (py_str (VStr ''u4'')))],
                  empty_db(''user'' := empty_db ''user'' @ [u]))"
    by (elim conjE exE)
  have c: "fst (signup carol_request zero_entropy (VStr ''u4'') empty_db) =
        Inr [(''token'', VStr (token_hex 16 zero_entropy)), (''user_id'', VStr ''u4'')]"
    by (simp add: b)
  have d: "length (snd (signup carol_request zero_entropy (VStr ''u4'') empty_db) ''user'') = 1"
  proof -
    have "empty_db ''user'' = []" by (simp add: empty_db_def)
    then show ?thesis by (simp add: b)
  qed
  have e: "empty_db ''user'' = []" by (simp add: empty_db_def)
  have "zero_entropy 0 \<noteq> one_entropy 0"
    by (simp add: zero_entropy_def one_entropy_def)
  then have "\<not> (\<forall>i<16. zero_entropy i = one_entropy i)"
    by (intro notI) auto
  with signup_conflict_or_fresh_user
         [of empty_db carol_request zero_entropy "VStr ''u4''" one_entropy,
          THEN conjunct2, THEN conjunct2, THEN conjunct2, THEN conjunct2]
  have f: "token_hex 16 zero_entropy \<noteq> token_hex 16 one_entropy"
    by (simp only: simp_thms)
  from dup a e c d f show ?thesis by (intro conjI)
qed

section \<open>Signing in\<close>

lemma update_missing: "map_of d k = None \<Longrightarrow> AList.update k v d = d @ [(k, v)]"
  by (induction d) auto

lemma set_field_plain:
  assumes "path_components k = [k]"
  shows "set_field k v d = Inr (AList.update k v d)"
proof (cases "map_of d k")
  case None
  with assms show ?thesis by (simp add: set_field_def update_missing)
next
  case (Some sub)
  with assms show ?thesis by (simp add: set_field_def)
qed

lemma set_fields_auth_token:
  "set_fields [(''auth_token'', v)] d = Inr (AList.update ''auth_token'' v d)"
proof -
  have "path_components ''auth_token'' = [''auth_token'']" by simp
  then have "set_field ''auth_token'' v d = Inr (AList.update ''auth_token'' v d)"
    by (rule set_field_plain)
  then show ?thesis by (simp add: set_fields_def update_conv')
qed

lemma well_formed_auth_token: "well_formed [(''auth_token'', v)]"
  by (simp add: well_formed_def)

lemma find_one_update_first:
  assumes "find_one c f1 = Some u" "find_one c f2 = Some u"
    and "set_fields flds u = Inr u'" "matches f1 u'"
  shows "\<exists>c'. update_first c f2 flds = Inr c' \<and> find_one c' f1 = Some u'"
  using assms(1,2)
proof (induction c)
  case Nil
  then show ?case by (simp add: find_one_def)
next
  case (Cons d ds)
  show ?case
  proof (cases "matches f2 d")
    case True
    with Cons.prems(2) have "d = u" by (simp add: find_one_def)
    with True assms(3,4) show ?thesis by (simp add: find_one_def)
  next
    case False
    with Cons.prems(2) have f2: "find_one ds f2 = Some u" by (simp add: find_one_def)
    then have "matches f2 u" by (rule find_one_Some_matches)
    with False have "d \<noteq> u" by blast
    with Cons.prems(1) have n: "\<not> matches f1 d" and f1: "find_one ds f1 = Some u"
      by (auto simp: find_one_def split: if_splits)
    from Cons.IH [OF f1 f2] obtain c' where "update_first ds f2 flds = Inr c'"
      and "find_one c' f1 = Some u'" by blast
    with n False show ?thesis by (simp add: find_one_def)
  qed
qed

lemma signin_no_match:
  assumes "find_one (db ''user'')
             [(''email'', VStr (auth_email payload)),
              (''password_hash'', VStr (auth_password payload))] = None"
  shows "signin payload entropy db = (Inl (HTTPException 401 ''Invalid credentials''), db)"
  using assms by (simp add: signin_def)

lemma matches_update_other:
  assumes "matches flt d" "k \<notin> fst ` set flt"
  shows "matches flt (AList.update k v d)"
proof -
  have "map_of (AList.update k v d) (fst kv) = Some (snd kv)" if "kv \<in> set flt" for kv
  proof -
    from that assms(2) have "fst kv \<noteq> k" by auto
    moreover from that assms(1) have "map_of d (fst kv) = Some (snd kv)"
      by (simp add: matches_def list_all_iff)
    ultimately show ?thesis by (simp add: update_conv')
  qed
  then show ?thesis by (simp add: matches_def list_all_iff)
qed

lemma signin_backfill:
  assumes "find_one (db ''user'')
             [(''email'', VStr (auth_email payload)),
              (''password_hash'', VStr (auth_password payload))] = Some u"
    and "\<not> truthy (get u ''auth_token'')" and "map_of u ''_id'' = Some uid"
    and "update_one (db ''user'') [(''_id'', uid)]
           [(''auth_token'', VStr (token_hex 16 entropy))] = Inr users"
  shows "signin payload entropy db =
           (Inr [(''token'', VStr (token_hex 16 entropy)), (''user_id'', VStr (py_str uid))],
            db(''user'' := users))"
proof -
  from assms(3) have "u \<noteq> []" by auto
  with assms show ?thesis by (simp add: signin_def Let_def)
qed

lemma signin_has_token:
  assumes "find_one (db ''user'')
             [(''email'', VStr (auth_email payload)),
              (''password_hash'', VStr (auth_password payload))] = Some u"
    and "truthy (get u ''auth_token'')" and "map_of u ''_id'' = Some uid"
  shows "signin payload entropy db =
           (Inr [(''token'', get u ''auth_token''), (''user_id'', VStr (py_str uid))], db)"
proof -
  from assms(3) have "u \<noteq> []" by auto
  with assms show ?thesis by (simp add: signin_def Let_def)
qed

text \<open>
  C8. Take a stored user that the lookup by email and password returns, that has no
  token (its \<^verbatim>\<open>auth_token\<close> is absent or false in Python's sense) and that its own
  \<^verbatim>\<open>_id\<close> identifies in the user collection. A first \<^verbatim>\<open>signin\<close> with these
  credentials succeeds with a token newly drawn from the entropy and stores it on that
  user; a second \<^verbatim>\<open>signin\<close> with the same credentials, whatever the entropy then,
  succeeds with the same token and changes nothing. When no stored user has both the
  email and the password of the request, \<^verbatim>\<open>signin\<close> raises the HTTP error 401.
\<close>

theorem signin_backfill_idempotent:
  "(find_one (db ''user'')
        [(''email'', VStr (auth_email payload)),
         (''password_hash'', VStr (auth_password payload))] = Some u
      \<and> \<not> truthy (get u ''auth_token'')
      \<and> map_of u ''_id'' = Some uid
      \<and> find_one (db ''user'') [(''_id'', uid)] = Some u
      \<longrightarrow> (\<exists>db'. signin payload entropy db =
                  (Inr [(''token'', VStr (token_hex 16 entropy)),
                        (''user_id'', VStr (py_str uid))], db')
               \<and> find_one (db' ''user'')
                    [(''email'', VStr (auth_email payload)),
                     (''password_hash'', VStr (auth_password payload))]
                  = Some (AList.update ''auth_token'' (VStr (token_hex 16 entropy)) u)
               \<and> signin payload entropy2 db' =
                  (Inr [(''token'', VStr (token_hex 16 entropy)),
                        (''user_id'', VStr (py_str uid))], db')))
   \<and> ((\<forall>v\<in>set (db ''user'').
          \<not> (map_of v ''email'' = Some (VStr (auth_email payload))
             \<and> map_of v ''password_hash'' = Some (VStr (auth_password payload))))
      \<longrightarrow> signin payload entropy db = (Inl (HTTPException 401 ''Invalid credentials''), db))"
proof (intro conjI impI)
  let ?creds = "[(''email'', VStr (auth_email payload)),
                 (''password_hash'', VStr (auth_password payload))]"
  let ?tok = "token_hex 16 entropy"
  let ?u' = "AList.update ''auth_token'' (VStr ?tok) u"
  assume h: "find_one (db ''user'') ?creds = Some u
      \<and> \<not> truthy (get u ''auth_token'')
      \<and> map_of u ''_id'' = Some uid
      \<and> find_one (db ''user'') [(''_id'', uid)] = Some u"
  then have found: "find_one (db ''user'') ?creds = Some u"
    and no_token: "\<not> truthy (get u ''auth_token'')"
    and uid: "map_of u ''_id'' = Some uid"
    and key: "find_one (db ''user'') [(''_id'', uid)] = Some u"
    by simp_all
  have "matches ?creds u" using found by (rule find_one_Some_matches)
  then have m: "matches ?creds ?u'"
    by (rule matches_update_other) simp
  from find_one_update_first
         [of "db ''user''" ?creds u "[(''_id'', uid)]" "[(''auth_token'', VStr ?tok)]" ?u',
          OF found key set_fields_auth_token m]
  obtain users where first_match: "update_first (db ''user'') [(''_id'', uid)]
                                     [(''auth_token'', VStr ?tok)] = Inr users"
    and again': "find_one users ?creds = Some ?u'"
    by blast
  let ?db' = "db(''user'' := users)"
  have upd: "update_one (db ''user'') [(''_id'', uid)] [(''auth_token'', VStr ?tok)] = Inr users"
    using first_match by (simp add: update_one_def well_formed_auth_token)
  have first: "signin payload entropy db =
      (Inr [(''token'', VStr ?tok), (''user_id'', VStr (py_str uid))], ?db')"
    by (rule signin_backfill [of db payload u uid entropy users, OF found no_token uid upd])
  have again: "find_one (?db' ''user'') ?creds = Some ?u'"
    using again' by simp
  have "length ?tok = 32" by (simp add: length_token_hex)
  then have "?tok \<noteq> []" by auto
  then have tok: "get ?u' ''auth_token'' = VStr ?tok" "truthy (get ?u' ''auth_token'')"
    by (simp_all add: get_def get_default_def update_conv')
  have uid': "map_of ?u' ''_id'' = Some uid"
    using uid by (simp add: update_conv')
  have second: "signin payload entropy2 ?db' =
      (Inr [(''token'', VStr ?tok), (''user_id'', VStr (py_str uid))], ?db')"
    using signin_has_token [of ?db' payload ?u' uid entropy2, OF again tok(2) uid']
    by (simp only: tok(1))
  from first again second
  show "\<exists>db'. signin payload entropy db =
                  (Inr [(''token'', VStr ?tok), (''user_id'', VStr (py_str uid))], db')
               \<and> find_one (db' ''user'') ?creds = Some ?u'
               \<and> signin payload entropy2 db' =
                  (Inr [(''token'', VStr ?tok), (''user_id'', VStr (py_str uid))], db')"
    by (intro exI [of _ ?db'] conjI)
next
  assume "\<forall>v\<in>set (db ''user'').
          \<not> (map_of v ''email'' = Some (VStr (auth_email payload))
             \<and> map_of v ''password_hash'' = Some (VStr (auth_password payload)))"
  then have "find_one (db ''user'')
             [(''email'', VStr (auth_email payload)),
              (''password_hash'', VStr (auth_password payload))] = None"
    by (simp add: find_one_None_iff matches_def)
  then show "signin payload entropy db = (Inl (HTTPException 401 ''Invalid credentials''), db)"
    by (rule signin_no_match [of db payload entropy])
qed

theorem signin_backfill_idempotent_witness:
  "fst (signin dave_request zero_entropy dave_db) =
      Inr [(''token'', VStr (token_hex 16 zero_entropy)), (''user_id'', VStr ''u5'')]
   \<and> fst (signin dave_request one_entropy (snd (signin dave_request zero_entropy dave_db))) =
      Inr [(''token'', VStr (token_hex 16 zero_entropy)), (''user_id'', VStr ''u5'')]
   \<and> signin wrong_request zero_entropy dave_db =
      (Inl (HTTPException 401 ''Invalid credentials''), dave_db)"
proof -
  have users: "dave_db ''user'' = [carol, dave]"
    by (simp add: dave_db_def)
  have carol_fields: "map_of carol ''email'' = Some (VStr ''carol@example.org'')"
    "map_of carol ''_id'' = Some (VStr ''u3'')"
    by (simp_all add: carol_def User_def update_conv')
  have dave_fields: "map_of dave ''email'' = Some (VStr ''dave@example.org'')"
    "map_of dave ''password_hash'' = Some (VStr ''secret'')"
    "map_of dave ''_id'' = Some (VStr ''u5'')"
    "get dave ''auth_token'' = VNone"
    by (simp_all add: dave_def get_def get_default_def)
  have h: "find_one (dave_db ''user'')
        [(''email'', VStr (auth_email dave_request)),
         (''password_hash'', VStr (auth_password dave_request))] = Some dave
      \<and> \<not> truthy (get dave ''auth_token'')
      \<and> map_of dave ''_id'' = Some (VStr ''u5'')
      \<and> find_one (dave_db ''user'') [(''_id'', VStr ''u5'')] = Some dave"
    by (simp add: users find_one_def matches_def carol_fields dave_fields dave_request_def)
  have n: "\<forall>v\<in>set (dave_db ''user'').
          \<not> (map_of v ''email'' = Some (VStr (auth_email wrong_request))
             \<and> map_of v ''password_hash'' = Some (VStr (auth_password wrong_request)))"
    by (simp add: users carol_fields dave_fields wrong_request_def)
  from signin_backfill_idempotent
         [of dave_db dave_request dave "VStr ''u5''" zero_entropy one_entropy,
          THEN conjunct1, THEN mp, OF h]
  obtain db' where a: "signin dave_request zero_entropy dave_db =
        (Inr [(''token'', VStr (token_hex 16 zero_entropy)),
              (''user_id'', VStr (py_str (VStr ''u5'')))], db')"
    and b: "signin dave_request one_entropy db' =
        (Inr [(''token'', VStr (token_hex 16 zero_entropy)),
              (''user_id'', VStr (py_str (VStr ''u5'')))], db')"
    by (elim exE conjE)
  from signin_backfill_idempotent
         [of dave_db wrong_request dave "VStr ''u5''" zero_entropy one_entropy,
          THEN conjunct2, THEN mp, OF n]
  have c: "signin wrong_request zero_entropy dave_db =
      (Inl (HTTPException 401 ''Invalid credentials''), dave_db)" .
  from a b c show ?thesis by simp
qed

section \<open>Deleting an overlay\<close>

lemma delete_overlay_raises:
  "delete_overlay overlay_id user db = (Inl (AttributeError ''objectid_class''), db)"
  by (simp add: delete_overlay_def objectid_class_def)

text \<open>
  C9. \<^verbatim>\<open>delete_overlay\<close> never reaches its lookups: the conversion of the path
  parameter raises \<^verbatim>\<open>AttributeError\<close> on every call. For the stored overlay with
  the identifier \<^verbatim>\<open>65f0c0ffee0123456789ab01\<close>, its owner's call does not delete
  it, another user's call is not answered 403, and a call for an identifier that no
  overlay has is not answered 404: each ends with the same exception and leaves the
  database as it was.
\<close>

theorem delete_overlay_attribute_error:
  "find_one (stream_db ''overlay'') [(''_id'', VOid ''65f0c0ffee0123456789ab01'')] = Some overlay_o1
   \<and> get overlay_o1 ''owner_user_id'' = VStr (py_str (get alice ''_id''))
   \<and> delete_overlay ''65f0c0ffee0123456789ab01'' alice stream_db
        = (Inl (AttributeError ''objectid_class''), stream_db)
   \<and> get overlay_o1 ''owner_user_id'' \<noteq> VStr (py_str (get dave ''_id''))
   \<and> delete_overlay ''65f0c0ffee0123456789ab01'' dave stream_db
        = (Inl (AttributeError ''objectid_class''), stream_db)
   \<and> find_one (stream_db ''overlay'') [(''_id'', VOid ''65f0c0ffee0123456789ab09'')] = None
   \<and> find_one (stream_db ''overlay'') [(''_id'', VStr ''65f0c0ffee0123456789ab09'')] = None
   \<and> delete_overlay ''65f0c0ffee0123456789ab09'' alice stream_db
        = (Inl (AttributeError ''objectid_class''), stream_db)"
proof -
  have colls: "stream_db ''overlay'' = [overlay_o1]"
    by (simp add: stream_db_def)
  have o1: "map_of overlay_o1 ''_id'' = Some (VOid ''65f0c0ffee0123456789ab01'')"
    "get overlay_o1 ''owner_user_id'' = VStr ''u1''"
    by (simp_all add: overlay_o1_def Overlay_def get_def get_default_def)
  have ids: "get alice ''_id'' = VStr ''u1''" "get dave ''_id'' = VStr ''u5''"
    by (simp_all add: alice_def dave_def get_def get_default_def)
  have found: "find_one (stream_db ''overlay'') [(''_id'', VOid ''65f0c0ffee0123456789ab01'')]
      = Some overlay_o1"
    by (simp add: colls find_one_def matches_def o1)
  have missing: "find_one (stream_db ''overlay'') [(''_id'', VOid ''65f0c0ffee0123456789ab09'')] = None"
    "find_one (stream_db ''overlay'') [(''_id'', VStr ''65f0c0ffee0123456789ab09'')] = None"
    by (simp_all add: colls find_one_def matches_def o1)
  have own: "get overlay_o1 ''owner_user_id'' = VStr (py_str (get alice ''_id''))"
    "get overlay_o1 ''owner_user_id'' \<noteq> VStr (py_str (get dave ''_id''))"
    by (simp_all add: o1 ids)
  from found missing own show ?thesis
    by (simp only: delete_overlay_raises simp_thms)
qed

section \<open>The public overlay endpoint\<close>

lemma get_eq_VStr: "get d k = VStr s \<longleftrightarrow> map_of d k = Some (VStr s)"
  by (simp add: get_def get_default_def split: option.splits)

lemma normalize_ids_total:
  assumes "\<forall>w\<in>set ws. map_of w ''_id'' \<noteq> None"
  shows "normalize_ids ws =
           Inr (map (\<lambda>w. AList.update ''id'' (VStr (py_str (get w ''_id'')))
                             (AList.delete ''_id'' w)) ws)"
  using assms
  by (induction ws) (auto simp: get_def get_default_def)

lemma find_docs_subset: "set (find_docs c flt) \<subseteq> set c"
  by (simp add: find_docs_def)

lemma get_overlay_public_eq:
  assumes "\<forall>w\<in>set (db ''widget''). map_of w ''_id'' \<noteq> None"
  shows "get_overlay_public overlay_id secret db =
     (case py_or (find_one (db ''overlay'') [(''_id'', VStr overlay_id)])
                 (find_one (db ''overlay'') [(''id'', VStr overlay_id)]) of
        None \<Rightarrow> Inl (HTTPException 404 ''Not found'')
      | Some ov \<Rightarrow>
          if map_of ov ''secret_token'' = Some (VStr secret)
          then Inr [(''id'', VStr (py_str (get_default ov ''_id'' (get ov ''id'')))),
                    (''name'', get ov ''name''),
                    (''width'', get ov ''width''),
                    (''height'', get ov ''height''),
                    (''widgets'', VList (map VDict
                       (map (\<lambda>w. AList.update ''id'' (VStr (py_str (get w ''_id'')))
                                    (AList.delete ''_id'' w))
                          (find_docs (db ''widget'') [(''overlay_id'', VStr overlay_id)]))))]
          else Inl (HTTPException 404 ''Not found''))"
proof -
  have "\<forall>w\<in>set (find_docs (db ''widget'') [(''overlay_id'', VStr overlay_id)]).
          map_of w ''_id'' \<noteq> None"
    using assms find_docs_subset by blast
  then have n: "normalize_ids (find_docs (db ''widget'') [(''overlay_id'', VStr overlay_id)]) =
      Inr (map (\<lambda>w. AList.update ''id'' (VStr (py_str (get w ''_id''))) (AList.delete ''_id'' w))
            (find_docs (db ''widget'') [(''overlay_id'', VStr overlay_id)]))"
    by (rule normalize_ids_total)
  have e: "(ov = [] \<or> get ov ''secret_token'' \<noteq> VStr secret)
             \<longleftrightarrow> map_of ov ''secret_token'' \<noteq> Some (VStr secret)" for ov
    by (cases ov) (auto simp: get_eq_VStr)
  show ?thesis
    unfolding get_overlay_public_def Let_def
    by (simp only: n e) (simp split: option.splits)
qed

text \<open>
  C5. \<^verbatim>\<open>get_overlay_public\<close> compares the stored \<^verbatim>\<open>_id\<close> and \<^verbatim>\<open>id\<close>
  fields with the path parameter as a string. An overlay that \<^verbatim>\<open>create_overlay\<close>
  stored under a store identifier is returned to its creator as that identifier's
  string, and the public endpoint, called with that string and the overlay's own secret
  token, does not find it and raises the HTTP error 404.
\<close>

theorem get_overlay_public_misses_created_overlay:
  "create_overlay side_request alice zero_entropy fresh_oid empty_db =
     (Inr [(''id'', VStr ''65f0c0ffee0123456789ab03''),
           (''secret_token'', VStr (token_urlsafe 16 zero_entropy))],
      empty_db(''overlay'' :=
        [AList.update ''_id'' fresh_oid
           (Overlay ''u1'' ''side'' 800 600 (token_urlsafe 16 zero_entropy))]))
   \<and> get_overlay_public ''65f0c0ffee0123456789ab03'' (token_urlsafe 16 zero_entropy)
        (snd (create_overlay side_request alice zero_entropy fresh_oid empty_db))
      = Inl (HTTPException 404 ''Not found'')"
proof -
  have e: "empty_db ''overlay'' = []" by (simp add: empty_db_def)
  have a: "map_of alice ''_id'' = Some (VStr ''u1'')" by (simp add: alice_def)
  have created: "create_overlay side_request alice zero_entropy fresh_oid empty_db =
     (Inr [(''id'', VStr ''65f0c0ffee0123456789ab03''),
           (''secret_token'', VStr (token_urlsafe 16 zero_entropy))],
      empty_db(''overlay'' :=
        [AList.update ''_id'' fresh_oid
           (Overlay ''u1'' ''side'' 800 600 (token_urlsafe 16 zero_entropy))]))"
    by (simp add: create_overlay_def create_document_def a e side_request_def fresh_oid_def
        Let_def)
  let ?ov = "AList.update ''_id'' fresh_oid
           (Overlay ''u1'' ''side'' 800 600 (token_urlsafe 16 zero_entropy))"
  have f: "map_of ?ov ''_id'' = Some (VOid ''65f0c0ffee0123456789ab03'')" "map_of ?ov ''id'' = None"
    by (simp_all add: Overlay_def fresh_oid_def)
  have "py_or (find_one [?ov] [(''_id'', VStr ''65f0c0ffee0123456789ab03'')])
              (find_one [?ov] [(''id'', VStr ''65f0c0ffee0123456789ab03'')]) = None"
    by (simp add: find_one_def matches_def py_or_def f)
  then have "get_overlay_public ''65f0c0ffee0123456789ab03'' (token_urlsafe 16 zero_entropy)
        (empty_db(''overlay'' := [?ov])) = Inl (HTTPException 404 ''Not found'')"
    by (simp add: get_overlay_public_def)
  with created show ?thesis by (simp only: snd_conv simp_thms)
qed

section \<open>The type of a stored widget\<close>










end
